theory Spec2Isabelle
  imports Complex_Main
begin

section \<open>Exceptions\<close>

text \<open>
  Every exception of the Python program is a value. \<open>Raised x\<close> is an exception
  raised inside a collaborator (rasterizer or shader); the pipeline has no
  \<^verbatim>\<open>try\<close>, so it reaches the caller as it is.
\<close>

datatype 'x error = IndexError | ValueError | RuntimeError | Raised 'x

section \<open>Tensors\<close>

text \<open>
  A tensor of shape \<open>(N, H, W, K)\<close> is a list nested four deep: images of the batch,
  rows, pixels of a row, the \<open>K\<close> faces kept at a pixel.
\<close>

type_synonym 'a tensor4 = "'a list list list list"

definition in_shape4 :: "'a tensor4 \<Rightarrow> nat \<Rightarrow> nat \<Rightarrow> nat \<Rightarrow> nat \<Rightarrow> bool" where
  "in_shape4 t n h x k =
     (n < length t \<and> h < length (t ! n) \<and> x < length (t ! n ! h) \<and> k < length (t ! n ! h ! x))"

definition slot4 :: "'a tensor4 \<Rightarrow> nat \<Rightarrow> nat \<Rightarrow> nat \<Rightarrow> nat \<Rightarrow> 'a" where
  "slot4 t n h x k = t ! n ! h ! x ! k"

text \<open>
  \<open>map2_err f xs ys\<close> runs \<open>f\<close> over two lists in step and stops at the first
  exception; lists of different lengths are tensors of different shapes
  (\<open>ValueError\<close>).
\<close>

fun map2_err :: "('a \<Rightarrow> 'b \<Rightarrow> 'x error + 'c) \<Rightarrow> 'a list \<Rightarrow> 'b list \<Rightarrow> 'x error + 'c list" where
  "map2_err f [] [] = Inr []"
| "map2_err f (x # xs) (y # ys) =
     (case f x y of
        Inl e \<Rightarrow> Inl e
      | Inr z \<Rightarrow> (case map2_err f xs ys of Inl e \<Rightarrow> Inl e | Inr zs \<Rightarrow> Inr (z # zs)))"
| "map2_err f _ _ = Inl ValueError"

section \<open>Data model\<close>

type_synonym uv = "real \<times> real"
type_synonym bary = "real \<times> real \<times> real"

text \<open>
  Modelled from the spec: the fragment buffer is produced by the rasterizer, whose
  module is not among the sources. Spec section 3: a \<open>faceId\<close> is an index into the
  packed face sequence of the whole batch, or the sentinel "no face".
\<close>

datatype face_id = NoFace | FaceId int

text \<open>
  Modelled from the spec: \<^verbatim>\<open>fragments.pix_to_face\<close>, \<^verbatim>\<open>fragments.bary_coords\<close>
  and \<^verbatim>\<open>fragments.zbuf\<close> are the fields the source names; the rasterizer's other
  fields are opaque (\<open>extra\<close>).
\<close>

record 'z Fragments =
  pix_to_face :: "face_id tensor4"
  bary_coords :: "bary tensor4"
  zbuf :: "real tensor4"
  extra :: 'z

text \<open>
  The texture accessors the source calls: \<^verbatim>\<open>maps_padded()\<close>,
  \<^verbatim>\<open>verts_uvs_list()\<close> (one \<open>(V\<^sub>i, 2)\<close> tensor per mesh) and
  \<^verbatim>\<open>faces_uvs_list()\<close> (one \<open>(F\<^sub>i, 3)\<close> index tensor per mesh). Their class is
  not among the sources; what they return is taken as given.
\<close>

record 'tm Textures =
  maps_padded :: 'tm
  verts_uvs_list :: "uv list list"
  faces_uvs_list :: "(int \<times> int \<times> int) list list"

record ('g, 'tm) Meshes =
  geometry :: 'g
  textures :: "'tm Textures"

section \<open>Collaborators\<close>

text \<open>
  The rasterizer and the shader are duck-typed objects with a call and a
  \<^verbatim>\<open>to\<close> method. A method is a function of the world \<open>'w\<close> (whatever state the
  collaborators own) that returns a value or raises, and the new world.
  \<^verbatim>\<open>rasterizer.raster_settings.clip_barycentric_coords\<close> is the flag the
  docstring of \<^verbatim>\<open>forward\<close> names; \<open>None\<close> is a flag nobody set.
\<close>

record RasterizationSettings =
  blur_radius :: real
  faces_per_pixel :: nat
  clip_barycentric_coords :: "bool option"

record ('g, 'tm, 'k, 'd, 'z, 'x, 'w) Rasterizer =
  raster_settings :: RasterizationSettings
  rasterizer_call :: "('g, 'tm) Meshes \<Rightarrow> 'k \<Rightarrow> 'w \<Rightarrow> ('x error + 'z Fragments) \<times> 'w"
  rasterizer_to :: "'d \<Rightarrow> 'w \<Rightarrow> ('x error + unit) \<times> 'w"

record ('g, 'tm, 'k, 'd, 'z, 'i, 'x, 'w) Shader =
  shader_call :: "'z Fragments \<Rightarrow> ('g, 'tm) Meshes \<Rightarrow> 'k \<Rightarrow> 'w \<Rightarrow> ('x error + 'i) \<times> 'w"
  shader_to :: "'d \<Rightarrow> 'w \<Rightarrow> ('x error + unit) \<times> 'w"

section \<open>MeshRenderer\<close>

text \<open>
  The object's own state is its two attributes. Every method returns its outcome,
  the object after the call and the world after the call.
\<close>

record ('g, 'tm, 'k, 'd, 'z, 'i, 'x, 'w) MeshRenderer =
  rasterizer :: "('g, 'tm, 'k, 'd, 'z, 'x, 'w) Rasterizer"
  shader :: "('g, 'tm, 'k, 'd, 'z, 'i, 'x, 'w) Shader"

definition MeshRenderer_init ::
  "('g, 'tm, 'k, 'd, 'z, 'x, 'w) Rasterizer \<Rightarrow> ('g, 'tm, 'k, 'd, 'z, 'i, 'x, 'w) Shader
   \<Rightarrow> ('g, 'tm, 'k, 'd, 'z, 'i, 'x, 'w) MeshRenderer" where
  "MeshRenderer_init r s = \<lparr>rasterizer = r, shader = s\<rparr>"

definition MeshRenderer_to ::
  "('g, 'tm, 'k, 'd, 'z, 'i, 'x, 'w) MeshRenderer \<Rightarrow> 'd \<Rightarrow> 'w
   \<Rightarrow> ('x error + unit) \<times> ('g, 'tm, 'k, 'd, 'z, 'i, 'x, 'w) MeshRenderer \<times> 'w" where
  "MeshRenderer_to self device w =
     (case rasterizer_to (rasterizer self) device w of
        (Inl e, w1) \<Rightarrow> (Inl e, self, w1)
      | (Inr _, w1) \<Rightarrow>
          (case shader_to (shader self) device w1 of
             (Inl e, w2) \<Rightarrow> (Inl e, self, w2)
           | (Inr _, w2) \<Rightarrow> (Inr (), self, w2)))"

definition MeshRenderer_forward ::
  "('g, 'tm, 'k, 'd, 'z, 'i, 'x, 'w) MeshRenderer \<Rightarrow> ('g, 'tm) Meshes \<Rightarrow> 'k \<Rightarrow> 'w
   \<Rightarrow> ('x error + 'i) \<times> ('g, 'tm, 'k, 'd, 'z, 'i, 'x, 'w) MeshRenderer \<times> 'w" where
  "MeshRenderer_forward self meshes_world kwargs w =
     (case rasterizer_call (rasterizer self) meshes_world kwargs w of
        (Inl e, w1) \<Rightarrow> (Inl e, self, w1)
      | (Inr fragments, w1) \<Rightarrow>
          (case shader_call (shader self) fragments meshes_world kwargs w1 of
             (Inl e, w2) \<Rightarrow> (Inl e, self, w2)
           | (Inr images, w2) \<Rightarrow> (Inr images, self, w2)))"

subsection \<open>The packed per-face UV attribute\<close>

text \<open>
  \<^verbatim>\<open>t[i]\<close> on the first axis of a tensor: an index from \<open>-n\<close> to \<open>n - 1\<close> is
  accepted, a negative one counts from the end, any other raises \<open>IndexError\<close>.
\<close>

definition tensor_index :: "'a list \<Rightarrow> int \<Rightarrow> 'x error + 'a" where
  "tensor_index t i =
     (let n = int (length t)
      in if 0 \<le> i \<and> i < n then Inr (t ! nat i)
         else if - n \<le> i \<and> i < 0 then Inr (t ! nat (i + n))
         else Inl IndexError)"

text \<open>One row of \<^verbatim>\<open>i[j]\<close>: the three vertex values of one face.\<close>

definition index_face :: "'a list \<Rightarrow> int \<times> int \<times> int \<Rightarrow> 'x error + 'a \<times> 'a \<times> 'a" where
  "index_face i f =
     (case f of (a, b, c) \<Rightarrow>
        (case tensor_index i a of
           Inl e \<Rightarrow> Inl e
         | Inr va \<Rightarrow>
             (case tensor_index i b of
                Inl e \<Rightarrow> Inl e
              | Inr vb \<Rightarrow>
                  (case tensor_index i c of
                     Inl e \<Rightarrow> Inl e
                   | Inr vc \<Rightarrow> Inr (va, vb, vc)))))"

fun map_err :: "('a \<Rightarrow> 'x error + 'b) \<Rightarrow> 'a list \<Rightarrow> 'x error + 'b list" where
  "map_err f [] = Inr []"
| "map_err f (x # xs) =
     (case f x of
        Inl e \<Rightarrow> Inl e
      | Inr y \<Rightarrow> (case map_err f xs of Inl e \<Rightarrow> Inl e | Inr ys \<Rightarrow> Inr (y # ys)))"

text \<open>\<^verbatim>\<open>i[j]\<close> for a \<open>(V, 2)\<close> tensor \<open>i\<close> and an \<open>(F, 3)\<close> index tensor \<open>j\<close>.\<close>

definition index_tensor :: "'a list \<Rightarrow> (int \<times> int \<times> int) list \<Rightarrow> 'x error + ('a \<times> 'a \<times> 'a) list" where
  "index_tensor i j = map_err (index_face i) j"

text \<open>
  \<^verbatim>\<open>[i[j] for i, j in zip(tex.verts_uvs_list(), tex.faces_uvs_list())]\<close>;
  \<^verbatim>\<open>zip\<close> stops at the shorter list, as \<^const>\<open>zip\<close> does.
\<close>

definition packing_list :: "'tm Textures \<Rightarrow> 'x error + (uv \<times> uv \<times> uv) list list" where
  "packing_list tex =
     map_err (\<lambda>(i, j). index_tensor i j) (zip (verts_uvs_list tex) (faces_uvs_list tex))"

text \<open>\<^verbatim>\<open>torch.cat\<close> along the first axis; it refuses an empty list of tensors.\<close>

definition torch_cat :: "'a list list \<Rightarrow> 'x error + 'a list" where
  "torch_cat ts = (if ts = [] then Inl RuntimeError else Inr (concat ts))"

definition faces_verts_uvs :: "'tm Textures \<Rightarrow> 'x error + (uv \<times> uv \<times> uv) list" where
  "faces_verts_uvs tex =
     (case packing_list tex of Inl e \<Rightarrow> Inl e | Inr pl \<Rightarrow> torch_cat pl)"

subsection \<open>Interpolation of face attributes\<close>

definition uv_scale :: "real \<Rightarrow> uv \<Rightarrow> uv" where
  "uv_scale c a = (c * fst a, c * snd a)"

definition uv_add :: "uv \<Rightarrow> uv \<Rightarrow> uv" where
  "uv_add a b = (fst a + fst b, snd a + snd b)"

text \<open>
  Modelled from the spec: \<^verbatim>\<open>pytorch3d.ops.interpolate_face_attributes\<close> is imported
  by the source and is not among the sources. Spec section 4.2: a slot with a valid
  \<open>faceId\<close> gets \<open>w0*A0 + w1*A1 + w2*A2\<close>, the weights used as they are; a slot
  with the sentinel gets the zero vector; a \<open>faceId\<close> outside the packed
  face-attribute sequence fails (\<open>IndexError\<close>, section 7).
\<close>

definition weighted_combination :: "bary \<Rightarrow> uv \<times> uv \<times> uv \<Rightarrow> uv" where
  "weighted_combination w A =
     (case w of (w0, w1, w2) \<Rightarrow>
        (case A of (A0, A1, A2) \<Rightarrow>
           uv_add (uv_add (uv_scale w0 A0) (uv_scale w1 A1)) (uv_scale w2 A2)))"

definition interpolate_slot :: "(uv \<times> uv \<times> uv) list \<Rightarrow> face_id \<Rightarrow> bary \<Rightarrow> 'x error + uv" where
  "interpolate_slot face_attributes fid w =
     (case fid of
        NoFace \<Rightarrow> Inr (0, 0)
      | FaceId i \<Rightarrow>
          if 0 \<le> i \<and> i < int (length face_attributes)
          then Inr (weighted_combination w (face_attributes ! nat i))
          else Inl IndexError)"

definition interpolate_face_attributes ::
  "face_id tensor4 \<Rightarrow> bary tensor4 \<Rightarrow> (uv \<times> uv \<times> uv) list \<Rightarrow> 'x error + uv tensor4" where
  "interpolate_face_attributes pix bary face_attributes =
     map2_err (map2_err (map2_err (map2_err (interpolate_slot face_attributes)))) pix bary"

subsection \<open>The texture-map entry point\<close>

definition get_view_to_texture_map ::
  "('g, 'tm, 'k, 'd, 'z, 'i, 'x, 'w) MeshRenderer \<Rightarrow> ('g, 'tm) Meshes \<Rightarrow> 'k \<Rightarrow> 'w
   \<Rightarrow> ('x error + uv tensor4) \<times> ('g, 'tm, 'k, 'd, 'z, 'i, 'x, 'w) MeshRenderer \<times> 'w" where
  "get_view_to_texture_map self meshes_world kwargs w =
     (case rasterizer_call (rasterizer self) meshes_world kwargs w of
        (Inl e, w1) \<Rightarrow> (Inl e, self, w1)
      | (Inr fragments, w1) \<Rightarrow>
          (let tex = textures meshes_world;
               tex_map = maps_padded tex
           in case faces_verts_uvs tex of
                Inl e \<Rightarrow> (Inl e, self, w1)
              | Inr fvu \<Rightarrow>
                  (case interpolate_face_attributes
                          (pix_to_face fragments) (bary_coords fragments) fvu of
                     Inl e \<Rightarrow> (Inl e, self, w1)
                   | Inr pixel_uvs \<Rightarrow> (Inr pixel_uvs, self, w1))))"

section \<open>MeshRendererWithFragments\<close>

record ('g, 'tm, 'k, 'd, 'z, 'i, 'x, 'w) MeshRendererWithFragments =
  rasterizer :: "('g, 'tm, 'k, 'd, 'z, 'x, 'w) Rasterizer"
  shader :: "('g, 'tm, 'k, 'd, 'z, 'i, 'x, 'w) Shader"

definition MeshRendererWithFragments_init ::
  "('g, 'tm, 'k, 'd, 'z, 'x, 'w) Rasterizer \<Rightarrow> ('g, 'tm, 'k, 'd, 'z, 'i, 'x, 'w) Shader
   \<Rightarrow> ('g, 'tm, 'k, 'd, 'z, 'i, 'x, 'w) MeshRendererWithFragments" where
  "MeshRendererWithFragments_init r s = \<lparr>rasterizer = r, shader = s\<rparr>"

definition MeshRendererWithFragments_to ::
  "('g, 'tm, 'k, 'd, 'z, 'i, 'x, 'w) MeshRendererWithFragments \<Rightarrow> 'd \<Rightarrow> 'w
   \<Rightarrow> ('x error + unit) \<times> ('g, 'tm, 'k, 'd, 'z, 'i, 'x, 'w) MeshRendererWithFragments \<times> 'w" where
  "MeshRendererWithFragments_to self device w =
     (case rasterizer_to (rasterizer self) device w of
        (Inl e, w1) \<Rightarrow> (Inl e, self, w1)
      | (Inr _, w1) \<Rightarrow>
          (case shader_to (shader self) device w1 of
             (Inl e, w2) \<Rightarrow> (Inl e, self, w2)
           | (Inr _, w2) \<Rightarrow> (Inr (), self, w2)))"

definition MeshRendererWithFragments_forward ::
  "('g, 'tm, 'k, 'd, 'z, 'i, 'x, 'w) MeshRendererWithFragments \<Rightarrow> ('g, 'tm) Meshes \<Rightarrow> 'k \<Rightarrow> 'w
   \<Rightarrow> ('x error + 'i \<times> 'z Fragments)
      \<times> ('g, 'tm, 'k, 'd, 'z, 'i, 'x, 'w) MeshRendererWithFragments \<times> 'w" where
  "MeshRendererWithFragments_forward self meshes_world kwargs w =
     (case rasterizer_call (rasterizer self) meshes_world kwargs w of
        (Inl e, w1) \<Rightarrow> (Inl e, self, w1)
      | (Inr fragments, w1) \<Rightarrow>
          (case shader_call (shader self) fragments meshes_world kwargs w1 of
             (Inl e, w2) \<Rightarrow> (Inl e, self, w2)
           | (Inr images, w2) \<Rightarrow> (Inr (images, fragments), self, w2)))"

section \<open>The clipping policy\<close>

text \<open>
  Modelled from the spec: the clipping step is not among the sources. Spec section
  4.2: a weight outside \<open>[0, 1]\<close> is clamped into \<open>[0, 1]\<close> and the triple is
  renormalised to sum to 1. When no weight is positive the clamped triple is
  \<open>(0, 0, 0)\<close>, which no scaling brings to sum 1 and of which the spec says
  nothing: it is returned as it is.
\<close>

definition clamp01 :: "real \<Rightarrow> real" where
  "clamp01 w = max 0 (min 1 w)"

definition clip_barycentric_coordinates :: "bary \<Rightarrow> bary" where
  "clip_barycentric_coordinates w =
     (case w of (w0, w1, w2) \<Rightarrow>
        (let c0 = clamp01 w0; c1 = clamp01 w1; c2 = clamp01 w2; s = c0 + c1 + c2
         in if s = 0 then (c0, c1, c2) else (c0 / s, c1 / s, c2 / s)))"

definition map4 :: "('a \<Rightarrow> 'b) \<Rightarrow> 'a tensor4 \<Rightarrow> 'b tensor4" where
  "map4 f t = map (map (map (map f))) t"

text \<open>
  Modelled from the spec: the FaceAttributeInterpolator of spec section 4.2 with its
  clipping policy. With the flag enabled the weights are clipped before the
  weighted combination; with the flag disabled they are used as they are.
\<close>

definition FaceAttributeInterpolator ::
  "bool \<Rightarrow> face_id tensor4 \<Rightarrow> bary tensor4 \<Rightarrow> (uv \<times> uv \<times> uv) list \<Rightarrow> 'x error + uv tensor4" where
  "FaceAttributeInterpolator clip pix bary face_attributes =
     interpolate_face_attributes pix
       (if clip then map4 clip_barycentric_coordinates bary else bary) face_attributes"

text \<open>The convex hull of the three vertex attributes of a face.\<close>

definition in_hull :: "uv \<times> uv \<times> uv \<Rightarrow> uv \<Rightarrow> bool" where
  "in_hull A v =
     (\<exists>a b c. 0 \<le> a \<and> 0 \<le> b \<and> 0 \<le> c \<and> a + b + c = 1 \<and> v = weighted_combination (a, b, c) A)"

section \<open>Well-formed fragment buffers\<close>

text \<open>
  \<open>same_shape4\<close>: two tensors have the same shape. \<open>all_slots4 P\<close>: every slot
  satisfies \<open>P\<close>. \<open>valid_face_id F\<close>: the sentinel, or an index into a packed
  sequence of \<open>F\<close> faces.
\<close>

definition all_slots4 :: "('a \<Rightarrow> bool) \<Rightarrow> 'a tensor4 \<Rightarrow> bool" where
  "all_slots4 P t = list_all (list_all (list_all (list_all P))) t"

definition same_shape4 :: "'a tensor4 \<Rightarrow> 'b tensor4 \<Rightarrow> bool" where
  "same_shape4 s t = list_all2 (list_all2 (list_all2 (\<lambda>p b. length p = length b))) s t"

definition valid_face_id :: "nat \<Rightarrow> face_id \<Rightarrow> bool" where
  "valid_face_id F fid = (case fid of NoFace \<Rightarrow> True | FaceId i \<Rightarrow> 0 \<le> i \<and> i < int F)"

section \<open>Example objects\<close>

text \<open>
  Collaborators that record every call they receive: the world is the list of the
  calls made so far.
\<close>

datatype event = RasterizerCall | RasterizerTo string | ShaderCall | ShaderTo string

definition centroid_fragments :: "unit Fragments" where
  "centroid_fragments =
     \<lparr>pix_to_face = [[[[FaceId 0]]]], bary_coords = [[[[(1/3, 1/3, 1/3)]]]],
      zbuf = [[[[1]]]], extra = ()\<rparr>"

definition one_triangle :: "(unit, nat) Meshes" where
  "one_triangle =
     \<lparr>geometry = (),
      textures = \<lparr>maps_padded = 0, verts_uvs_list = [[(0, 0), (1, 0), (0, 1)]],
                  faces_uvs_list = [[(0, 1, 2)]]\<rparr>\<rparr>"

definition recording_rasterizer ::
  "unit Fragments \<Rightarrow> bool option \<Rightarrow> (unit, nat, unit, string, unit, unit, event list) Rasterizer" where
  "recording_rasterizer fragments flag =
     \<lparr>raster_settings = \<lparr>blur_radius = 0, faces_per_pixel = 1, clip_barycentric_coords = flag\<rparr>,
      rasterizer_call = (\<lambda>meshes kwargs w. (Inr fragments, w @ [RasterizerCall])),
      rasterizer_to = (\<lambda>device w. (Inr (), w @ [RasterizerTo device]))\<rparr>"

definition recording_shader ::
  "(unit, nat, unit, string, unit, bary tensor4, unit, event list) Shader" where
  "recording_shader =
     \<lparr>shader_call = (\<lambda>fragments meshes kwargs w. (Inr (bary_coords fragments), w @ [ShaderCall])),
      shader_to = (\<lambda>device w. (Inr (), w @ [ShaderTo device]))\<rparr>"

text \<open>
  The edge pixel of spec section 8: soft rasterization gave the weights
  \<open>(1.2, -0.3, 0.1)\<close>.
\<close>

definition blur_fragments :: "unit Fragments" where
  "blur_fragments =
     \<lparr>pix_to_face = [[[[FaceId 0]]]], bary_coords = [[[[(12/10, - 3/10, 1/10)]]]],
      zbuf = [[[[1]]]], extra = ()\<rparr>"

text \<open>A pixel with two slots: no face in the first, face 0 in the second.\<close>

definition background_fragments :: "unit Fragments" where
  "background_fragments =
     \<lparr>pix_to_face = [[[[NoFace, FaceId 0]]]],
      bary_coords = [[[[(1/3, 1/3, 1/3), (1/3, 1/3, 1/3)]]]],
      zbuf = [[[[- 1, 1]]]], extra = ()\<rparr>"

text \<open>Fragments of another batch: face 1 does not exist in \<open>one_triangle\<close>.\<close>

definition stray_fragments :: "unit Fragments" where
  "stray_fragments =
     \<lparr>pix_to_face = [[[[FaceId 1]]]], bary_coords = [[[[(1/3, 1/3, 1/3)]]]],
      zbuf = [[[[1]]]], extra = ()\<rparr>"

text \<open>
  A batch of two meshes: mesh 0 has 4 UV vertices and 3 faces, mesh 1 has 6 UV
  vertices and 5 faces; the UV indices of each mesh start at 0.
\<close>

definition two_meshes :: "nat Textures" where
  "two_meshes =
     \<lparr>maps_padded = 0,
      verts_uvs_list =
        [[(0, 0), (1/10, 0), (0, 1/10), (1/10, 1/10)],
         [(1/2, 1/2), (6/10, 1/2), (1/2, 6/10), (6/10, 6/10), (7/10, 1/2), (7/10, 6/10)]],
      faces_uvs_list =
        [[(0, 1, 2), (1, 3, 2), (0, 2, 3)],
         [(0, 1, 2), (1, 3, 2), (1, 4, 3), (4, 5, 3), (0, 2, 5)]]\<rparr>"

text \<open>
  A rasterizer that looks at the texture maps of the batch it is given: it reports
  face 0 at the pixel when the maps are not \<open>0\<close>, and no face otherwise.
\<close>

definition map_reading_rasterizer ::
  "(unit, nat, unit, string, unit, unit, event list) Rasterizer" where
  "map_reading_rasterizer =
     \<lparr>raster_settings = \<lparr>blur_radius = 0, faces_per_pixel = 1, clip_barycentric_coords = None\<rparr>,
      rasterizer_call =
        (\<lambda>meshes kwargs w.
           (Inr (if maps_padded (textures meshes) = 0
                 then centroid_fragments\<lparr>pix_to_face := [[[[NoFace]]]]\<rparr>
                 else centroid_fragments),
            w @ [RasterizerCall])),
      rasterizer_to = (\<lambda>device w. (Inr (), w @ [RasterizerTo device]))\<rparr>"

section \<open>Traversals, shapes and clipping: auxiliary facts\<close>

lemma map2_err_Inr_length:
  "map2_err f xs ys = Inr zs \<Longrightarrow> length ys = length xs \<and> length zs = length xs"
  by (induction f xs ys arbitrary: zs rule: map2_err.induct)
     (auto split: sum.splits)

lemma map2_err_Inr_nth:
  "map2_err f xs ys = Inr zs \<Longrightarrow> i < length xs \<Longrightarrow> f (xs ! i) (ys ! i) = Inr (zs ! i)"
proof (induction f xs ys arbitrary: zs i rule: map2_err.induct)
  case (2 f x xs y ys)
  then show ?case by (cases i) (auto split: sum.splits)
qed auto

lemma map2_err_Inl_nth:
  "i < length xs \<Longrightarrow> (\<And>y. isl (f (xs ! i) y)) \<Longrightarrow> isl (map2_err f xs ys)"
proof (induction xs arbitrary: ys i)
  case Nil
  then show ?case by simp
next
  case (Cons x xs)
  show ?case
  proof (cases ys)
    case Nil
    then show ?thesis by simp
  next
    case ys: (Cons y ys')
    show ?thesis
    proof (cases i)
      case 0
      with Cons.prems(2)[of y] have "isl (f x y)" by simp
      then show ?thesis using ys by (auto split: sum.splits)
    next
      case (Suc j)
      with Cons.prems have "j < length xs" and "\<And>y. isl (f (xs ! j) y)" by simp_all
      then have "isl (map2_err f xs ys')" by (rule Cons.IH)
      then show ?thesis using ys by (auto split: sum.splits)
    qed
  qed
qed

lemma map4_err_slot:
  assumes "map2_err (map2_err (map2_err (map2_err f))) P B = Inr out"
    and "in_shape4 P n h x k"
  shows "f (slot4 P n h x k) (slot4 B n h x k) = Inr (slot4 out n h x k)"
proof -
  from assms(2) have n: "n < length P" and h: "h < length (P ! n)"
    and x: "x < length (P ! n ! h)" and k: "k < length (P ! n ! h ! x)"
    by (simp_all add: in_shape4_def)
  have 1: "map2_err (map2_err (map2_err f)) (P ! n) (B ! n) = Inr (out ! n)"
    using map2_err_Inr_nth[OF assms(1) n] .
  have 2: "map2_err (map2_err f) (P ! n ! h) (B ! n ! h) = Inr (out ! n ! h)"
    using map2_err_Inr_nth[OF 1 h] .
  have 3: "map2_err f (P ! n ! h ! x) (B ! n ! h ! x) = Inr (out ! n ! h ! x)"
    using map2_err_Inr_nth[OF 2 x] .
  show ?thesis using map2_err_Inr_nth[OF 3 k] by (simp add: slot4_def)
qed

lemma map4_err_fails:
  assumes "in_shape4 P n h x k" and "\<And>b. isl (f (slot4 P n h x k) b)"
  shows "isl (map2_err (map2_err (map2_err (map2_err f))) P B)"
proof -
  from assms(1) have n: "n < length P" and h: "h < length (P ! n)"
    and x: "x < length (P ! n ! h)" and k: "k < length (P ! n ! h ! x)"
    by (simp_all add: in_shape4_def)
  have 3: "isl (map2_err f (P ! n ! h ! x) b)" for b
    using map2_err_Inl_nth[OF k, of f b] assms(2) by (simp add: slot4_def)
  have 2: "isl (map2_err (map2_err f) (P ! n ! h) b)" for b
    using map2_err_Inl_nth[OF x, of "map2_err f" b] 3 by simp
  have 1: "isl (map2_err (map2_err (map2_err f)) (P ! n) b)" for b
    using map2_err_Inl_nth[OF h, of "map2_err (map2_err f)" b] 2 by simp
  show ?thesis
    using map2_err_Inl_nth[OF n, of "map2_err (map2_err (map2_err f))" B] 1 by simp
qed

lemma map4_err_in_shape:
  assumes "map2_err (map2_err (map2_err (map2_err f))) P B = Inr out"
    and "in_shape4 P n h x k"
  shows "in_shape4 B n h x k \<and> in_shape4 out n h x k"
proof -
  from assms(2) have n: "n < length P" and h: "h < length (P ! n)"
    and x: "x < length (P ! n ! h)" and k: "k < length (P ! n ! h ! x)"
    by (simp_all add: in_shape4_def)
  have 1: "map2_err (map2_err (map2_err f)) (P ! n) (B ! n) = Inr (out ! n)"
    using map2_err_Inr_nth[OF assms(1) n] .
  have 2: "map2_err (map2_err f) (P ! n ! h) (B ! n ! h) = Inr (out ! n ! h)"
    using map2_err_Inr_nth[OF 1 h] .
  have 3: "map2_err f (P ! n ! h ! x) (B ! n ! h ! x) = Inr (out ! n ! h ! x)"
    using map2_err_Inr_nth[OF 2 x] .
  show ?thesis
    using map2_err_Inr_length[OF assms(1)] map2_err_Inr_length[OF 1]
      map2_err_Inr_length[OF 2] map2_err_Inr_length[OF 3] n h x k
    by (simp add: in_shape4_def)
qed

lemma map2_err_returns:
  "list_all2 R xs ys \<Longrightarrow> list_all Q xs
   \<Longrightarrow> (\<And>x y. R x y \<Longrightarrow> Q x \<Longrightarrow> \<not> isl (f x y)) \<Longrightarrow> \<not> isl (map2_err f xs ys)"
proof (induction xs ys rule: list_all2_induct)
  case Nil
  then show ?case by simp
next
  case (Cons x xs y ys)
  then have "\<not> isl (f x y)" and "\<not> isl (map2_err f xs ys)" by simp_all
  then show ?case by (auto split: sum.splits)
qed

lemma map4_err_returns:
  assumes "same_shape4 P B" and "all_slots4 Q P"
    and ok: "\<And>p b. Q p \<Longrightarrow> \<not> isl (f p b)"
  shows "\<not> isl (map2_err (map2_err (map2_err (map2_err f))) P B)"
proof -
  have 1: "\<not> isl (map2_err f ps bs)" if "length ps = length bs" "list_all Q ps" for ps bs
  proof -
    from that(1) have "list_all2 (\<lambda>p b. True) ps bs" by (simp add: list_all2_conv_all_nth)
    then show ?thesis using that(2) ok by (rule map2_err_returns)
  qed
  have 2: "\<not> isl (map2_err (map2_err f) ps bs)"
    if "list_all2 (\<lambda>p b. length p = length b) ps bs" "list_all (list_all Q) ps" for ps bs
    using that 1 by (rule map2_err_returns)
  have 3: "\<not> isl (map2_err (map2_err (map2_err f)) ps bs)"
    if "list_all2 (list_all2 (\<lambda>p b. length p = length b)) ps bs"
      "list_all (list_all (list_all Q)) ps" for ps bs
    using that 2 by (rule map2_err_returns)
  show ?thesis
    using assms(1,2) 3 unfolding same_shape4_def all_slots4_def by (rule map2_err_returns)
qed

lemma map4_in_shape: "in_shape4 (map4 f t) n h x k = in_shape4 t n h x k"
  by (auto simp: in_shape4_def map4_def)

lemma map4_slot: "in_shape4 t n h x k \<Longrightarrow> slot4 (map4 f t) n h x k = f (slot4 t n h x k)"
  by (simp add: in_shape4_def map4_def slot4_def)

lemma clamp01_range: "0 \<le> clamp01 w \<and> clamp01 w \<le> 1"
  by (simp add: clamp01_def)

lemma clamp01_id: "0 \<le> w \<Longrightarrow> w \<le> 1 \<Longrightarrow> clamp01 w = w"
  by (simp add: clamp01_def)

lemma clamp01_pos: "0 < w \<Longrightarrow> 0 < clamp01 w"
  by (simp add: clamp01_def)

lemma clip_normalised:
  assumes "0 < w0 \<or> 0 < w1 \<or> 0 < w2"
    and "clip_barycentric_coordinates (w0, w1, w2) = (c0, c1, c2)"
  shows "0 \<le> c0 \<and> c0 \<le> 1 \<and> 0 \<le> c1 \<and> c1 \<le> 1 \<and> 0 \<le> c2 \<and> c2 \<le> 1 \<and> c0 + c1 + c2 = 1"
proof -
  define a where "a = clamp01 w0"
  define b where "b = clamp01 w1"
  define c where "c = clamp01 w2"
  define s where "s = a + b + c"
  have nn: "0 \<le> a" "0 \<le> b" "0 \<le> c"
    using clamp01_range by (simp_all add: a_def b_def c_def)
  have "0 < a \<or> 0 < b \<or> 0 < c"
    using assms(1) clamp01_pos by (auto simp: a_def b_def c_def)
  with nn have s: "0 < s" by (auto simp: s_def)
  from assms(2) s have c0: "c0 = a / s" and c1: "c1 = b / s" and c2: "c2 = c / s"
    by (simp_all add: clip_barycentric_coordinates_def Let_def a_def b_def c_def s_def)
  have "a \<le> s" "b \<le> s" "c \<le> s" using nn by (simp_all add: s_def)
  with s nn have "0 \<le> a / s" "a / s \<le> 1" "0 \<le> b / s" "b / s \<le> 1" "0 \<le> c / s" "c / s \<le> 1"
    by simp_all
  moreover have "a / s + b / s + c / s = 1"
    using s by (simp add: s_def add_divide_distrib[symmetric])
  ultimately show ?thesis by (simp add: c0 c1 c2)
qed

lemma clip_fixed:
  assumes "0 \<le> c0" "c0 \<le> 1" "0 \<le> c1" "c1 \<le> 1" "0 \<le> c2" "c2 \<le> 1" "c0 + c1 + c2 = 1"
  shows "clip_barycentric_coordinates (c0, c1, c2) = (c0, c1, c2)"
  using assms by (simp add: clip_barycentric_coordinates_def Let_def clamp01_id)

lemma in_hull_combination:
  "0 \<le> a \<Longrightarrow> 0 \<le> b \<Longrightarrow> 0 \<le> c \<Longrightarrow> a + b + c = 1 \<Longrightarrow> in_hull A (weighted_combination (a, b, c) A)"
  unfolding in_hull_def by blast

section \<open>Rendering\<close>

text \<open>
  C1. Built on the same rasterizer and shader, \<^verbatim>\<open>MeshRenderer.forward\<close> returns the
  first component of what \<^verbatim>\<open>MeshRendererWithFragments.forward\<close> returns (the same
  exception when one is raised) and leaves the same world behind; and when the
  rasterizer returns fragments, the outcome is the outcome of the shader called on
  these fragments and the same mesh batch, unchanged.
\<close>

theorem forward_is_fst_forward_with_fragments:
  "fst (MeshRenderer_forward (MeshRenderer_init r s) m k w)
     = map_sum id fst
         (fst (MeshRendererWithFragments_forward (MeshRendererWithFragments_init r s) m k w))
   \<and> snd (snd (MeshRenderer_forward (MeshRenderer_init r s) m k w))
     = snd (snd (MeshRendererWithFragments_forward (MeshRendererWithFragments_init r s) m k w))
   \<and> (\<forall>f w1. rasterizer_call r m k w = (Inr f, w1) \<longrightarrow>
        fst (MeshRenderer_forward (MeshRenderer_init r s) m k w) = fst (shader_call s f m k w1)
        \<and> snd (snd (MeshRenderer_forward (MeshRenderer_init r s) m k w))
            = snd (shader_call s f m k w1))"
  by (auto simp: MeshRenderer_forward_def MeshRendererWithFragments_forward_def
        MeshRenderer_init_def MeshRendererWithFragments_init_def
      split: prod.splits sum.splits)

theorem forward_is_fst_forward_with_fragments_witness:
  "rasterizer_call (recording_rasterizer centroid_fragments None) one_triangle () []
     = (Inr centroid_fragments, [RasterizerCall])
   \<and> fst (MeshRenderer_forward
            (MeshRenderer_init (recording_rasterizer centroid_fragments None) recording_shader)
            one_triangle () [])
     = Inr [[[[(1/3, 1/3, 1/3)]]]]
   \<and> snd (snd (MeshRenderer_forward
            (MeshRenderer_init (recording_rasterizer centroid_fragments None) recording_shader)
            one_triangle () []))
     = [RasterizerCall, ShaderCall]
   \<and> fst (MeshRendererWithFragments_forward
            (MeshRendererWithFragments_init (recording_rasterizer centroid_fragments None)
               recording_shader)
            one_triangle () [])
     = Inr ([[[[(1/3, 1/3, 1/3)]]]], centroid_fragments)"
  using forward_is_fst_forward_with_fragments
    [of "recording_rasterizer centroid_fragments None" recording_shader one_triangle "()" "[]"]
  by (simp add: recording_rasterizer_def recording_shader_def centroid_fragments_def
        MeshRendererWithFragments_forward_def MeshRendererWithFragments_init_def)

section \<open>The face-attribute interpolator\<close>

lemma interpolate_slot_valid:
  "valid_face_id (length fa) fid \<Longrightarrow> \<not> isl (interpolate_slot fa fid wt :: 'x error + uv)"
  by (auto simp: valid_face_id_def interpolate_slot_def split: face_id.splits)

lemma interpolate_face_attributes_slot:
  assumes "interpolate_face_attributes pix bary fa = (Inr out :: 'x error + uv tensor4)"
    and "in_shape4 pix n h x k"
  shows "(interpolate_slot fa (slot4 pix n h x k) (slot4 bary n h x k) :: 'x error + uv)
           = Inr (slot4 out n h x k)"
  using assms unfolding interpolate_face_attributes_def by (rule map4_err_slot)

lemma interpolate_face_attributes_returns:
  assumes "same_shape4 pix bary" and "all_slots4 (valid_face_id (length fa)) pix"
  shows "\<exists>out. interpolate_face_attributes pix bary fa = (Inr out :: 'x error + uv tensor4)"
proof -
  have "\<not> isl (interpolate_face_attributes pix bary fa :: 'x error + uv tensor4)"
    unfolding interpolate_face_attributes_def
    using assms interpolate_slot_valid by (rule map4_err_returns)
  then show ?thesis
    by (cases "interpolate_face_attributes pix bary fa :: 'x error + uv tensor4") auto
qed

text \<open>
  C2. The interpolator of the spec, the flag among its inputs. A pixel slot with a face
  id, in a fragment buffer the interpolator accepts, whose three weights sum to 1 as the
  weights of a fragment do. With the flag enabled the weights are clipped first: each
  clipped weight lies in \<open>[0, 1]\<close>, they sum to 1, the slot's value is their weighted
  combination of the face's three vertex attributes, and so it lies in the convex hull
  of the three. With the flag disabled the slot's value is the weighted combination with
  the weights as they came.
\<close>

theorem clip_then_interpolate_in_hull:
  assumes "FaceAttributeInterpolator clip pix bary fa = (Inr out :: 'x error + uv tensor4)"
    and "in_shape4 pix n h x k"
    and "slot4 pix n h x k = FaceId i"
    and "slot4 bary n h x k = (w0, w1, w2)"
    and "w0 + w1 + w2 = 1"
  shows "(clip \<longrightarrow>
            (case clip_barycentric_coordinates (w0, w1, w2) of (c0, c1, c2) \<Rightarrow>
               0 \<le> c0 \<and> c0 \<le> 1 \<and> 0 \<le> c1 \<and> c1 \<le> 1 \<and> 0 \<le> c2 \<and> c2 \<le> 1 \<and> c0 + c1 + c2 = 1)
          \<and> slot4 out n h x k
              = weighted_combination (clip_barycentric_coordinates (w0, w1, w2)) (fa ! nat i)
          \<and> in_hull (fa ! nat i) (slot4 out n h x k))
       \<and> (\<not> clip \<longrightarrow> slot4 out n h x k = weighted_combination (w0, w1, w2) (fa ! nat i))"
proof -
  let ?B = "if clip then map4 clip_barycentric_coordinates bary else bary"
  from assms(1) have run: "interpolate_face_attributes pix ?B fa = (Inr out :: 'x error + uv tensor4)"
    by (simp add: FaceAttributeInterpolator_def)
  from run assms(2) have sl:
    "(interpolate_slot fa (FaceId i) (slot4 ?B n h x k) :: 'x error + uv) = Inr (slot4 out n h x k)"
    using interpolate_face_attributes_slot[OF run assms(2)] assms(3) by simp
  then have val: "slot4 out n h x k = weighted_combination (slot4 ?B n h x k) (fa ! nat i)"
    by (auto simp: interpolate_slot_def split: if_splits)
  have shB: "in_shape4 ?B n h x k"
    using map4_err_in_shape[OF run[unfolded interpolate_face_attributes_def] assms(2)] by simp
  obtain c0 c1 c2 where c: "clip_barycentric_coordinates (w0, w1, w2) = (c0, c1, c2)"
    by (cases "clip_barycentric_coordinates (w0, w1, w2)") auto
  from assms(5) have pos: "0 < w0 \<or> 0 < w1 \<or> 0 < w2" by linarith
  note nrm = clip_normalised[OF pos c]
  show ?thesis
  proof (cases clip)
    case True
    with shB have "in_shape4 bary n h x k" by (simp add: map4_in_shape)
    then have "slot4 ?B n h x k = (c0, c1, c2)"
      using True assms(4) c by (simp add: map4_slot)
    with val have v: "slot4 out n h x k = weighted_combination (c0, c1, c2) (fa ! nat i)" by simp
    have "in_hull (fa ! nat i) (slot4 out n h x k)"
      unfolding v using nrm by (intro in_hull_combination) simp_all
    with v nrm True show ?thesis by (simp add: c)
  next
    case False
    with val assms(4) show ?thesis by simp
  qed
qed

theorem clip_then_interpolate_in_hull_witness:
  "(FaceAttributeInterpolator True [[[[FaceId 0]]]] [[[[(12/10, - 3/10, 1/10)]]]]
       [((0, 0), (1, 0), (0, 1))] :: unit error + uv tensor4) = Inr [[[[(0, 1/11)]]]]
   \<and> in_shape4 [[[[FaceId 0]]]] 0 0 0 0
   \<and> (12/10 :: real) + (- 3/10) + 1/10 = 1
   \<and> clip_barycentric_coordinates (12/10, - 3/10, 1/10) = (10/11, 0, 1/11)
   \<and> in_hull ((0, 0), (1, 0), (0, 1)) (0, 1/11)
   \<and> (FaceAttributeInterpolator False [[[[FaceId 0]]]] [[[[(12/10, - 3/10, 1/10)]]]]
       [((0, 0), (1, 0), (0, 1))] :: unit error + uv tensor4) = Inr [[[[(- 3/10, 1/10)]]]]
   \<and> weighted_combination (12/10, - 3/10, 1/10) ((0, 0), (1, 0), (0, 1)) = (- 3/10, 1/10)
   \<and> \<not> in_hull ((0, 0), (1, 0), (0, 1)) (- 3/10, 1/10)"
proof -
  have run: "(FaceAttributeInterpolator True [[[[FaceId 0]]]] [[[[(12/10, - 3/10, 1/10)]]]]
       [((0, 0), (1, 0), (0, 1))] :: unit error + uv tensor4) = Inr [[[[(0, 1/11)]]]]"
    by (simp add: FaceAttributeInterpolator_def interpolate_face_attributes_def map4_def
          interpolate_slot_def clip_barycentric_coordinates_def clamp01_def Let_def
          weighted_combination_def uv_add_def uv_scale_def)
  have raw: "(FaceAttributeInterpolator False [[[[FaceId 0]]]] [[[[(12/10, - 3/10, 1/10)]]]]
       [((0, 0), (1, 0), (0, 1))] :: unit error + uv tensor4) = Inr [[[[(- 3/10, 1/10)]]]]"
    by (simp add: FaceAttributeInterpolator_def interpolate_face_attributes_def
          interpolate_slot_def weighted_combination_def uv_add_def uv_scale_def)
  have sh: "in_shape4 [[[[FaceId 0]]]] 0 0 0 0" by (simp add: in_shape4_def)
  have sm: "(12/10 :: real) + (- 3/10) + 1/10 = 1" by simp
  have cl: "clip_barycentric_coordinates (12/10, - 3/10, 1/10) = (10/11, 0, 1/11)"
    by (simp add: clip_barycentric_coordinates_def clamp01_def Let_def)
  have fid: "slot4 [[[[FaceId 0]]]] 0 0 0 0 = FaceId 0" by (simp add: slot4_def)
  have wts: "slot4 [[[[(12/10, - 3/10, 1/10)]]]] 0 0 0 0 = (12/10 :: real, - 3/10 :: real, 1/10 :: real)"
    by (simp add: slot4_def)
  from clip_then_interpolate_in_hull[OF run sh fid wts sm]
  have "in_hull ([((0, 0), (1, 0), (0, 1))] ! nat 0) (slot4 [[[[(0, 1/11)]]]] 0 0 0 0)"
    by blast
  then have hull: "in_hull ((0, 0), (1, 0), (0, 1)) (0, 1/11)" by (simp add: slot4_def)
  from clip_then_interpolate_in_hull[OF raw sh fid wts sm]
  have "slot4 [[[[(- 3/10, 1/10)]]]] 0 0 0 0
          = weighted_combination (12/10, - 3/10, 1/10) ([((0, 0), (1, 0), (0, 1))] ! nat 0)"
    by blast
  then have comb: "weighted_combination (12/10, - 3/10, 1/10) ((0, 0), (1, 0), (0, 1))
                     = (- 3/10, 1/10)"
    by (simp add: slot4_def)
  have outside: "\<not> in_hull ((0, 0), (1, 0), (0, 1)) (- 3/10, 1/10)"
    by (auto simp: in_hull_def weighted_combination_def uv_add_def uv_scale_def)
  from run sh sm cl hull raw comb outside show ?thesis by blast
qed

text \<open>
  C7. Clipping is idempotent: for every triple of weights, clamping into \<open>[0, 1]\<close> and
  renormalising a second time changes nothing.
\<close>

theorem clip_idempotent:
  "clip_barycentric_coordinates (clip_barycentric_coordinates w) = clip_barycentric_coordinates w"
proof -
  obtain w0 w1 w2 where w: "w = (w0, w1, w2)" by (cases w) auto
  obtain c0 c1 c2 where c: "clip_barycentric_coordinates (w0, w1, w2) = (c0, c1, c2)"
    by (cases "clip_barycentric_coordinates (w0, w1, w2)") auto
  show ?thesis
  proof (cases "0 < w0 \<or> 0 < w1 \<or> 0 < w2")
    case True
    from clip_normalised[OF True c] show ?thesis
      using clip_fixed[of c0 c1 c2] by (simp add: w c)
  next
    case False
    then have "clamp01 w0 = 0" "clamp01 w1 = 0" "clamp01 w2 = 0"
      by (simp_all add: clamp01_def)
    then show ?thesis
      by (simp add: w clip_barycentric_coordinates_def Let_def clamp01_def)
  qed
qed

section \<open>The texture-map entry point: what the interpolation does\<close>

lemma map2_err_error:
  assumes "map2_err f xs ys = Inl e" and "P ValueError"
    and "\<And>x y e. f x y = Inl e \<Longrightarrow> P e"
  shows "P e"
  using assms
proof (induction f xs ys rule: map2_err.induct)
  case (2 f x xs y ys)
  show ?case
  proof (cases "f x y")
    case (Inl e')
    with 2(2) have "e' = e" by simp
    with Inl 2(4) show ?thesis by blast
  next
    case (Inr z)
    with 2(2) have "map2_err f xs ys = Inl e" by (auto split: sum.splits)
    with 2(1)[OF Inr] 2(3,4) show ?thesis by blast
  qed
qed auto

lemma interpolate_face_attributes_error:
  assumes "interpolate_face_attributes pix bary fa = (Inl e :: 'x error + uv tensor4)"
  shows "e = IndexError \<or> e = ValueError"
proof -
  let ?P = "\<lambda>e :: 'x error. e = IndexError \<or> e = ValueError"
  have 0: "?P e" if "(interpolate_slot fa p b :: 'x error + uv) = Inl e" for p b e
    using that by (auto simp: interpolate_slot_def split: face_id.splits if_splits)
  have 1: "?P e" if "map2_err (interpolate_slot fa) ps bs = (Inl e :: 'x error + uv list)" for ps bs e
    using that _ 0 by (rule map2_err_error) simp
  have 2: "?P e" if "map2_err (map2_err (interpolate_slot fa)) ps bs = (Inl e :: 'x error + uv list list)"
    for ps bs e
    using that _ 1 by (rule map2_err_error) simp
  have 3: "?P e"
    if "map2_err (map2_err (map2_err (interpolate_slot fa))) ps bs = (Inl e :: 'x error + uv list list list)"
    for ps bs e
    using that _ 2 by (rule map2_err_error) simp
  show ?thesis
    using assms[unfolded interpolate_face_attributes_def] _ 3 by (rule map2_err_error) simp
qed

lemma get_view_to_texture_map_interpolates:
  fixes self :: "('g, 'tm, 'k, 'd, 'z, 'i, 'x, 'w) MeshRenderer"
  assumes "rasterizer_call (MeshRenderer.rasterizer self) m kw w = (Inr fr, w1)"
    and "faces_verts_uvs (textures m) = (Inr fa :: 'x error + (uv \<times> uv \<times> uv) list)"
  shows "get_view_to_texture_map self m kw w =
           (case interpolate_face_attributes (pix_to_face fr) (bary_coords fr) fa of
              Inl e \<Rightarrow> (Inl e, self, w1)
            | Inr out \<Rightarrow> (Inr out, self, w1))"
  using assms by (simp add: get_view_to_texture_map_def Let_def)

lemma get_view_to_texture_map_Inr:
  fixes self :: "('g, 'tm, 'k, 'd, 'z, 'i, 'x, 'w) MeshRenderer"
  assumes "rasterizer_call (MeshRenderer.rasterizer self) m kw w = (Inr fr, w1)"
    and "fst (get_view_to_texture_map self m kw w) = Inr out"
  shows "\<exists>fa. faces_verts_uvs (textures m) = (Inr fa :: 'x error + (uv \<times> uv \<times> uv) list)
           \<and> interpolate_face_attributes (pix_to_face fr) (bary_coords fr) fa
               = (Inr out :: 'x error + uv tensor4)"
  using assms by (auto simp: get_view_to_texture_map_def Let_def split: sum.splits)

lemma one_triangle_packed:
  "(faces_verts_uvs (textures one_triangle) :: unit error + (uv \<times> uv \<times> uv) list)
     = Inr [((0, 0), (1, 0), (0, 1))]"
  by (simp add: faces_verts_uvs_def packing_list_def index_tensor_def index_face_def
        tensor_index_def torch_cat_def one_triangle_def)

lemma recording_rasterizer_call:
  "rasterizer_call (MeshRenderer.rasterizer (MeshRenderer_init (recording_rasterizer fr flag) s)) m kw w
     = (Inr fr, w @ [RasterizerCall])"
  by (simp add: MeshRenderer_init_def recording_rasterizer_def)

text \<open>
  C5. A pixel slot of the rasterizer's fragments that holds the sentinel "no face": its
  interpolation is the zero vector and not an exception, whatever the weights and the
  face attributes; in every result of \<^verbatim>\<open>get_view_to_texture_map\<close> the slot holds
  the zero vector; and a buffer of any shape that holds nothing but the sentinel makes
  the interpolation raise nothing (the packing of the UVs having succeeded and the
  weights having the buffer's shape).
\<close>

theorem no_face_slot_is_zero:
  fixes self :: "('g, 'tm, 'k, 'd, 'z, 'i, 'x, 'w) MeshRenderer"
  assumes "rasterizer_call (MeshRenderer.rasterizer self) m kw w = (Inr fr, w1)"
    and "in_shape4 (pix_to_face fr) n h x k"
    and "slot4 (pix_to_face fr) n h x k = NoFace"
  shows "(interpolate_slot fa (slot4 (pix_to_face fr) n h x k) wt :: 'x error + uv) = Inr (0, 0)
       \<and> (\<forall>out. fst (get_view_to_texture_map self m kw w) = Inr out \<longrightarrow> slot4 out n h x k = (0, 0))
       \<and> (all_slots4 (\<lambda>f. f = NoFace) (pix_to_face fr)
            \<and> same_shape4 (pix_to_face fr) (bary_coords fr)
            \<and> \<not> isl (faces_verts_uvs (textures m) :: 'x error + (uv \<times> uv \<times> uv) list)
          \<longrightarrow> \<not> isl (fst (get_view_to_texture_map self m kw w)))"
proof (intro conjI allI impI)
  show "(interpolate_slot fa (slot4 (pix_to_face fr) n h x k) wt :: 'x error + uv) = Inr (0, 0)"
    using assms(3) by (simp add: interpolate_slot_def)
next
  fix out
  assume "fst (get_view_to_texture_map self m kw w) = Inr out"
  from get_view_to_texture_map_Inr[OF assms(1) this] obtain fa' where
    "interpolate_face_attributes (pix_to_face fr) (bary_coords fr) fa'
       = (Inr out :: 'x error + uv tensor4)" by blast
  from interpolate_face_attributes_slot[OF this assms(2)] assms(3)
  show "slot4 out n h x k = (0, 0)" by (simp add: interpolate_slot_def)
next
  assume a: "all_slots4 (\<lambda>f. f = NoFace) (pix_to_face fr)
            \<and> same_shape4 (pix_to_face fr) (bary_coords fr)
            \<and> \<not> isl (faces_verts_uvs (textures m) :: 'x error + (uv \<times> uv \<times> uv) list)"
  then obtain fa' where fa': "faces_verts_uvs (textures m) = (Inr fa' :: 'x error + (uv \<times> uv \<times> uv) list)"
    by (cases "faces_verts_uvs (textures m) :: 'x error + (uv \<times> uv \<times> uv) list") auto
  have "\<not> isl (interpolate_face_attributes (pix_to_face fr) (bary_coords fr) fa' :: 'x error + uv tensor4)"
    unfolding interpolate_face_attributes_def
  proof (rule map4_err_returns)
    show "same_shape4 (pix_to_face fr) (bary_coords fr)" using a by simp
    show "all_slots4 (\<lambda>f. f = NoFace) (pix_to_face fr)" using a by simp
    show "\<not> isl (interpolate_slot fa' p b :: 'x error + uv)" if "p = NoFace" for p b
      using that by (simp add: interpolate_slot_def)
  qed
  then show "\<not> isl (fst (get_view_to_texture_map self m kw w))"
    by (auto simp: get_view_to_texture_map_interpolates[OF assms(1) fa'] split: sum.splits)
qed

theorem no_face_slot_is_zero_witness:
  "rasterizer_call
      (MeshRenderer.rasterizer
         (MeshRenderer_init (recording_rasterizer background_fragments None) recording_shader))
      one_triangle () []
     = (Inr background_fragments, [RasterizerCall])
   \<and> in_shape4 (pix_to_face background_fragments) 0 0 0 0
   \<and> slot4 (pix_to_face background_fragments) 0 0 0 0 = NoFace
   \<and> fst (get_view_to_texture_map
            (MeshRenderer_init (recording_rasterizer background_fragments None) recording_shader)
            one_triangle () [])
       = Inr [[[[(0, 0), (1/3, 1/3)]]]]
   \<and> slot4 [[[[(0, 0), (1/3, 1/3)]]]] 0 0 0 0 = (0 :: real, 0 :: real)"
proof -
  let ?self = "MeshRenderer_init (recording_rasterizer background_fragments None) recording_shader"
  have r: "rasterizer_call (MeshRenderer.rasterizer ?self) one_triangle () []
             = (Inr background_fragments, [RasterizerCall])"
    by (simp add: recording_rasterizer_call)
  have sh: "in_shape4 (pix_to_face background_fragments) 0 0 0 0"
    by (simp add: background_fragments_def in_shape4_def)
  have nf: "slot4 (pix_to_face background_fragments) 0 0 0 0 = NoFace"
    by (simp add: background_fragments_def slot4_def)
  have run: "fst (get_view_to_texture_map ?self one_triangle () []) = Inr [[[[(0, 0), (1/3, 1/3)]]]]"
    by (subst get_view_to_texture_map_interpolates[OF r one_triangle_packed])
       (simp add:
          interpolate_face_attributes_def interpolate_slot_def background_fragments_def
          weighted_combination_def uv_add_def uv_scale_def)
  from no_face_slot_is_zero[OF r sh nf] run
  have "slot4 [[[[(0, 0), (1/3, 1/3)]]]] 0 0 0 0 = (0 :: real, 0 :: real)" by blast
  with r sh nf run show ?thesis by blast
qed

text \<open>
  C6. When a slot of the rasterizer's fragments holds a face id that is not the sentinel
  and lies outside the packed face-attribute sequence (negative, or not less than its
  length), the slot's interpolation is an \<open>IndexError\<close> (no wrapping, no read), and
  \<^verbatim>\<open>get_view_to_texture_map\<close> ends with an exception that reaches the caller: the
  \<open>IndexError\<close>, or the \<open>ValueError\<close> of tensors of different shapes when that is met
  first.
\<close>

theorem stray_face_id_fails:
  fixes self :: "('g, 'tm, 'k, 'd, 'z, 'i, 'x, 'w) MeshRenderer"
  assumes "rasterizer_call (MeshRenderer.rasterizer self) m kw w = (Inr fr, w1)"
    and "faces_verts_uvs (textures m) = (Inr fa :: 'x error + (uv \<times> uv \<times> uv) list)"
    and "in_shape4 (pix_to_face fr) n h x k"
    and "slot4 (pix_to_face fr) n h x k = FaceId i"
    and "i < 0 \<or> int (length fa) \<le> i"
  shows "(interpolate_slot fa (FaceId i) wt :: 'x error + uv) = Inl IndexError
       \<and> (\<exists>e. get_view_to_texture_map self m kw w = (Inl e, self, w1)
               \<and> (e = IndexError \<or> e = ValueError))"
proof -
  have bad: "(interpolate_slot fa (FaceId i) b :: 'x error + uv) = Inl IndexError" for b
    using assms(5) by (auto simp: interpolate_slot_def)
  have "isl (interpolate_face_attributes (pix_to_face fr) (bary_coords fr) fa :: 'x error + uv tensor4)"
    unfolding interpolate_face_attributes_def
    using assms(3) by (rule map4_err_fails) (simp add: assms(4) bad)
  then obtain e where e: "interpolate_face_attributes (pix_to_face fr) (bary_coords fr) fa
      = (Inl e :: 'x error + uv tensor4)"
    by (cases "interpolate_face_attributes (pix_to_face fr) (bary_coords fr) fa :: 'x error + uv tensor4")
       auto
  from interpolate_face_attributes_error[OF e] have "e = IndexError \<or> e = ValueError" .
  moreover have "get_view_to_texture_map self m kw w = (Inl e, self, w1)"
    by (simp add: get_view_to_texture_map_interpolates[OF assms(1,2)] e)
  ultimately show ?thesis using bad by blast
qed

theorem stray_face_id_fails_witness:
  "rasterizer_call
      (MeshRenderer.rasterizer
         (MeshRenderer_init (recording_rasterizer stray_fragments None) recording_shader))
      one_triangle () []
     = (Inr stray_fragments, [RasterizerCall])
   \<and> (faces_verts_uvs (textures one_triangle) :: unit error + (uv \<times> uv \<times> uv) list)
       = Inr [((0, 0), (1, 0), (0, 1))]
   \<and> in_shape4 (pix_to_face stray_fragments) 0 0 0 0
   \<and> slot4 (pix_to_face stray_fragments) 0 0 0 0 = FaceId 1
   \<and> int (length [((0, 0), (1, 0), (0, 1)) :: uv \<times> uv \<times> uv]) \<le> 1
   \<and> get_view_to_texture_map
        (MeshRenderer_init (recording_rasterizer stray_fragments None) recording_shader)
        one_triangle () []
       = (Inl IndexError,
          MeshRenderer_init (recording_rasterizer stray_fragments None) recording_shader,
          [RasterizerCall])"
proof -
  let ?self = "MeshRenderer_init (recording_rasterizer stray_fragments None) recording_shader"
  have r: "rasterizer_call (MeshRenderer.rasterizer ?self) one_triangle () []
             = (Inr stray_fragments, [RasterizerCall])"
    by (simp add: recording_rasterizer_call)
  have sh: "in_shape4 (pix_to_face stray_fragments) 0 0 0 0"
    by (simp add: stray_fragments_def in_shape4_def)
  have fid: "slot4 (pix_to_face stray_fragments) 0 0 0 0 = FaceId 1"
    by (simp add: stray_fragments_def slot4_def)
  have out: "(1 :: int) < 0 \<or> int (length [((0, 0), (1, 0), (0, 1)) :: uv \<times> uv \<times> uv]) \<le> 1"
    by simp
  from stray_face_id_fails[OF r one_triangle_packed sh fid out]
  obtain e where e: "get_view_to_texture_map ?self one_triangle () [] = (Inl e, ?self, [RasterizerCall])"
    by blast
  have "fst (get_view_to_texture_map ?self one_triangle () []) = Inl IndexError"
    by (subst get_view_to_texture_map_interpolates[OF r one_triangle_packed])
       (simp add:
          interpolate_face_attributes_def interpolate_slot_def stray_fragments_def)
  with e have "get_view_to_texture_map ?self one_triangle () []
                 = (Inl IndexError, ?self, [RasterizerCall])" by simp
  with r one_triangle_packed sh fid show ?thesis by simp
qed

text \<open>
  C4, as the code has it. \<^verbatim>\<open>get_view_to_texture_map\<close> hands the weights of the
  fragments to the interpolation as the rasterizer delivered them; it passes no flag and
  tests no range. With a clip flag that nobody set and for all weights, in range or not:
  when the fragments are well formed (the weights have the shape of the face ids, every
  face id is the sentinel or within the packed sequence) the call returns, and every
  slot with a face id holds the weighted combination with the raw weights. Nothing is
  clipped and no exception tells of weights out of range.
\<close>

theorem weights_pass_through_unclipped:
  fixes self :: "('g, 'tm, 'k, 'd, 'z, 'i, 'x, 'w) MeshRenderer"
  assumes "clip_barycentric_coords (raster_settings (MeshRenderer.rasterizer self)) = None"
    and "rasterizer_call (MeshRenderer.rasterizer self) m kw w = (Inr fr, w1)"
    and "faces_verts_uvs (textures m) = (Inr fa :: 'x error + (uv \<times> uv \<times> uv) list)"
    and "same_shape4 (pix_to_face fr) (bary_coords fr)"
    and "all_slots4 (valid_face_id (length fa)) (pix_to_face fr)"
  shows "\<exists>out. get_view_to_texture_map self m kw w = (Inr out, self, w1)
           \<and> (\<forall>n h x k i. in_shape4 (pix_to_face fr) n h x k
                  \<and> slot4 (pix_to_face fr) n h x k = FaceId i
                \<longrightarrow> slot4 out n h x k
                      = weighted_combination (slot4 (bary_coords fr) n h x k) (fa ! nat i))"
proof -
  from interpolate_face_attributes_returns[OF assms(4,5)] obtain out where
    out: "interpolate_face_attributes (pix_to_face fr) (bary_coords fr) fa
            = (Inr out :: 'x error + uv tensor4)" by blast
  have res: "get_view_to_texture_map self m kw w = (Inr out, self, w1)"
    by (simp add: get_view_to_texture_map_interpolates[OF assms(2,3)] out)
  have "slot4 out n h x k = weighted_combination (slot4 (bary_coords fr) n h x k) (fa ! nat i)"
    if "in_shape4 (pix_to_face fr) n h x k" "slot4 (pix_to_face fr) n h x k = FaceId i"
    for n h x k i
    using interpolate_face_attributes_slot[OF out that(1)] that(2)
    by (auto simp: interpolate_slot_def split: if_splits)
  with res show ?thesis by blast
qed

theorem weights_pass_through_unclipped_witness:
  "clip_barycentric_coords
      (raster_settings
         (MeshRenderer.rasterizer
            (MeshRenderer_init (recording_rasterizer blur_fragments None) recording_shader)))
     = None
   \<and> rasterizer_call
        (MeshRenderer.rasterizer
           (MeshRenderer_init (recording_rasterizer blur_fragments None) recording_shader))
        one_triangle () []
     = (Inr blur_fragments, [RasterizerCall])
   \<and> (faces_verts_uvs (textures one_triangle) :: unit error + (uv \<times> uv \<times> uv) list)
       = Inr [((0, 0), (1, 0), (0, 1))]
   \<and> same_shape4 (pix_to_face blur_fragments) (bary_coords blur_fragments)
   \<and> all_slots4 (valid_face_id (length [((0, 0), (1, 0), (0, 1)) :: uv \<times> uv \<times> uv]))
        (pix_to_face blur_fragments)
   \<and> (\<exists>out. get_view_to_texture_map
               (MeshRenderer_init (recording_rasterizer blur_fragments None) recording_shader)
               one_triangle () []
             = (Inr out,
                MeshRenderer_init (recording_rasterizer blur_fragments None) recording_shader,
                [RasterizerCall])
           \<and> slot4 out 0 0 0 0
               = weighted_combination (12/10, - 3/10, 1/10) ((0, 0), (1, 0), (0, 1)))"
proof -
  let ?self = "MeshRenderer_init (recording_rasterizer blur_fragments None) recording_shader"
  have fl: "clip_barycentric_coords (raster_settings (MeshRenderer.rasterizer ?self)) = None"
    by (simp add: MeshRenderer_init_def recording_rasterizer_def)
  have r: "rasterizer_call (MeshRenderer.rasterizer ?self) one_triangle () []
             = (Inr blur_fragments, [RasterizerCall])"
    by (simp add: recording_rasterizer_call)
  have sh: "same_shape4 (pix_to_face blur_fragments) (bary_coords blur_fragments)"
    by (simp add: same_shape4_def blur_fragments_def)
  have ok: "all_slots4 (valid_face_id (length [((0, 0), (1, 0), (0, 1)) :: uv \<times> uv \<times> uv]))
              (pix_to_face blur_fragments)"
    by (simp add: all_slots4_def valid_face_id_def blur_fragments_def)
  have pos: "in_shape4 (pix_to_face blur_fragments) 0 0 0 0
             \<and> slot4 (pix_to_face blur_fragments) 0 0 0 0 = FaceId 0"
    by (simp add: in_shape4_def slot4_def blur_fragments_def)
  have wts: "slot4 (bary_coords blur_fragments) 0 0 0 0 = (12/10, - 3/10, 1/10)"
    by (simp add: slot4_def blur_fragments_def)
  from weights_pass_through_unclipped[OF fl r one_triangle_packed sh ok] pos wts
  show ?thesis using fl r one_triangle_packed sh ok by fastforce
qed

text \<open>
  The edge pixel of spec section 8 with a flag nobody set: the weight \<open>1.2\<close> is outside
  \<open>[0, 1]\<close>, and the call returns the raw weighted sum \<open>(-0.3, 0.1)\<close>.
\<close>

theorem unset_flag_raises_nothing_counterexample:
  "clip_barycentric_coords (raster_settings (recording_rasterizer blur_fragments None)) = None
   \<and> slot4 (pix_to_face blur_fragments) 0 0 0 0 = FaceId 0
   \<and> slot4 (bary_coords blur_fragments) 0 0 0 0 = (12/10, - 3/10, 1/10)
   \<and> \<not> (12/10 :: real) \<le> 1
   \<and> get_view_to_texture_map
        (MeshRenderer_init (recording_rasterizer blur_fragments None) recording_shader)
        one_triangle () []
       = (Inr [[[[(- 3/10, 1/10)]]]],
          MeshRenderer_init (recording_rasterizer blur_fragments None) recording_shader,
          [RasterizerCall])"
proof -
  let ?self = "MeshRenderer_init (recording_rasterizer blur_fragments None) recording_shader"
  have r: "rasterizer_call (MeshRenderer.rasterizer ?self) one_triangle () []
             = (Inr blur_fragments, [RasterizerCall])"
    by (simp add: recording_rasterizer_call)
  have "get_view_to_texture_map ?self one_triangle () []
          = (Inr [[[[(- 3/10, 1/10)]]]], ?self, [RasterizerCall])"
    by (subst get_view_to_texture_map_interpolates[OF r one_triangle_packed])
       (simp add:
          interpolate_face_attributes_def interpolate_slot_def blur_fragments_def
          weighted_combination_def uv_add_def uv_scale_def)
  then show ?thesis
    by (simp add: recording_rasterizer_def blur_fragments_def slot4_def)
qed

section \<open>The packed per-face UV attribute is built mesh by mesh\<close>

lemma map_err_Inr:
  "map_err f xs = Inr ys \<Longrightarrow> length ys = length xs \<and> (\<forall>i<length xs. f (xs ! i) = Inr (ys ! i))"
proof (induction xs arbitrary: ys)
  case Nil
  then show ?case by simp
next
  case (Cons x xs)
  then obtain y ys' where y: "f x = Inr y" and ys': "map_err f xs = Inr ys'" and ys: "ys = y # ys'"
    by (auto split: sum.splits)
  from Cons.IH[OF ys'] y ys show ?case by (auto simp: nth_Cons split: nat.splits)
qed

lemma faces_verts_uvs_Inr:
  assumes "faces_verts_uvs tex = (Inr packed :: 'x error + (uv \<times> uv \<times> uv) list)"
  shows "\<exists>pl. packing_list tex = (Inr pl :: 'x error + (uv \<times> uv \<times> uv) list list)
            \<and> pl \<noteq> [] \<and> packed = concat pl"
  using assms by (auto simp: faces_verts_uvs_def torch_cat_def split: sum.splits if_splits)

text \<open>
  C3. When \<^verbatim>\<open>get_view_to_texture_map\<close> has built the packed attribute
  (\<^verbatim>\<open>torch.cat(packing_list)\<close>), it is the concatenation, in mesh order, of one
  tensor per mesh; the tensor of mesh \<open>m\<close> has one entry per face of mesh \<open>m\<close>, and
  entry \<open>j\<close> is the UV coordinates of mesh \<open>m\<close> at the three UV indices of face \<open>j\<close>
  of mesh \<open>m\<close>. So for a batch of two meshes with 3 and 5 faces the packed attribute
  has 8 entries and entry 3 is face 0 of mesh 1, taken from the UV coordinates of
  mesh 1.
\<close>

theorem packed_uvs_selected_per_mesh:
  assumes "faces_verts_uvs tex = (Inr packed :: 'x error + (uv \<times> uv \<times> uv) list)"
  shows "(\<exists>pl. length pl = min (length (verts_uvs_list tex)) (length (faces_uvs_list tex))
            \<and> packed = concat pl
            \<and> (\<forall>m<length pl.
                  length (pl ! m) = length (faces_uvs_list tex ! m)
                  \<and> (\<forall>j<length (faces_uvs_list tex ! m).
                        (index_face (verts_uvs_list tex ! m) (faces_uvs_list tex ! m ! j)
                           :: 'x error + uv \<times> uv \<times> uv)
                        = Inr (pl ! m ! j))))
       \<and> (\<forall>v0 v1 f0 f1.
             verts_uvs_list tex = [v0, v1] \<and> faces_uvs_list tex = [f0, f1]
             \<and> length f0 = 3 \<and> length f1 = 5
           \<longrightarrow> length packed = 8
               \<and> (index_face v1 (f1 ! 0) :: 'x error + uv \<times> uv \<times> uv) = Inr (packed ! 3))"
proof -
  let ?vs = "verts_uvs_list tex" and ?fs = "faces_uvs_list tex"
  from faces_verts_uvs_Inr[OF assms] obtain pl where
    pl: "packing_list tex = (Inr pl :: 'x error + (uv \<times> uv \<times> uv) list list)"
    and cat: "packed = concat pl" by blast
  from map_err_Inr[OF pl[unfolded packing_list_def]]
  have len: "length pl = min (length ?vs) (length ?fs)"
    and each: "\<forall>m<length (zip ?vs ?fs).
                 (case zip ?vs ?fs ! m of (i, j) \<Rightarrow> index_tensor i j)
                   = (Inr (pl ! m) :: 'x error + (uv \<times> uv \<times> uv) list)"
    by simp_all
  have per: "length (pl ! m) = length (?fs ! m)
             \<and> (\<forall>j<length (?fs ! m).
                   (index_face (?vs ! m) (?fs ! m ! j) :: 'x error + uv \<times> uv \<times> uv)
                   = Inr (pl ! m ! j))"
    if "m < length pl" for m
  proof -
    from that len have m: "m < length ?vs" "m < length ?fs" by simp_all
    with each have "index_tensor (?vs ! m) (?fs ! m)
                      = (Inr (pl ! m) :: 'x error + (uv \<times> uv \<times> uv) list)"
      by simp
    from map_err_Inr[OF this[unfolded index_tensor_def]] show ?thesis by simp
  qed
  have special: "length packed = 8
                 \<and> (index_face v1 (f1 ! 0) :: 'x error + uv \<times> uv \<times> uv) = Inr (packed ! 3)"
    if "?vs = [v0, v1] \<and> ?fs = [f0, f1] \<and> length f0 = 3 \<and> length f1 = 5" for v0 v1 f0 f1
  proof -
    from that len have l2: "length pl = 2" by simp
    then obtain p0 p1 where p: "pl = [p0, p1]"
      by (cases pl; cases "tl pl"; cases "tl (tl pl)") auto
    from per[of 0] that p have p0: "length p0 = 3" by simp
    from per[of 1] that p have p1: "length p1 = 5"
      and f: "(index_face v1 (f1 ! 0) :: 'x error + uv \<times> uv \<times> uv) = Inr (p1 ! 0)"
      by simp_all
    from cat p p0 p1 have "length packed = 8" and "packed ! 3 = p1 ! 0"
      by (simp_all add: nth_append)
    with f show ?thesis by simp
  qed
  from len cat per special show ?thesis by blast
qed

theorem packed_uvs_selected_per_mesh_witness:
  "(faces_verts_uvs two_meshes :: unit error + (uv \<times> uv \<times> uv) list)
     = Inr [((0, 0), (1/10, 0), (0, 1/10)),
            ((1/10, 0), (1/10, 1/10), (0, 1/10)),
            ((0, 0), (0, 1/10), (1/10, 1/10)),
            ((1/2, 1/2), (6/10, 1/2), (1/2, 6/10)),
            ((6/10, 1/2), (6/10, 6/10), (1/2, 6/10)),
            ((6/10, 1/2), (7/10, 1/2), (6/10, 6/10)),
            ((7/10, 1/2), (7/10, 6/10), (6/10, 6/10)),
            ((1/2, 1/2), (1/2, 6/10), (7/10, 6/10))]
   \<and> length (faces_uvs_list two_meshes ! 0) = 3
   \<and> length (faces_uvs_list two_meshes ! 1) = 5
   \<and> (index_face (verts_uvs_list two_meshes ! 1) (faces_uvs_list two_meshes ! 1 ! 0)
        :: unit error + uv \<times> uv \<times> uv)
       = Inr ((1/2, 1/2), (6/10, 1/2), (1/2, 6/10))"
proof -
  let ?packed = "[((0, 0), (1/10, 0), (0, 1/10)),
            ((1/10, 0), (1/10, 1/10), (0, 1/10)),
            ((0, 0), (0, 1/10), (1/10, 1/10)),
            ((1/2, 1/2), (6/10, 1/2), (1/2, 6/10)),
            ((6/10, 1/2), (6/10, 6/10), (1/2, 6/10)),
            ((6/10, 1/2), (7/10, 1/2), (6/10, 6/10)),
            ((7/10, 1/2), (7/10, 6/10), (6/10, 6/10)),
            ((1/2, 1/2), (1/2, 6/10), (7/10, 6/10))] :: (uv \<times> uv \<times> uv) list"
  have run: "(faces_verts_uvs two_meshes :: unit error + (uv \<times> uv \<times> uv) list) = Inr ?packed"
    by (simp add: faces_verts_uvs_def packing_list_def index_tensor_def index_face_def
          tensor_index_def torch_cat_def two_meshes_def)
  have shape: "verts_uvs_list two_meshes = [verts_uvs_list two_meshes ! 0, verts_uvs_list two_meshes ! 1]
      \<and> faces_uvs_list two_meshes = [faces_uvs_list two_meshes ! 0, faces_uvs_list two_meshes ! 1]
      \<and> length (faces_uvs_list two_meshes ! 0) = 3 \<and> length (faces_uvs_list two_meshes ! 1) = 5"
    by (simp add: two_meshes_def)
  from packed_uvs_selected_per_mesh[OF run] shape
  have "(index_face (verts_uvs_list two_meshes ! 1) (faces_uvs_list two_meshes ! 1 ! 0)
          :: unit error + uv \<times> uv \<times> uv) = Inr (?packed ! 3)"
    by blast
  with run shape show ?thesis by simp
qed

section \<open>Moving to a device\<close>

text \<open>
  C8. \<^verbatim>\<open>to(device)\<close> of either class calls \<^verbatim>\<open>rasterizer.to(device)\<close> and then
  \<^verbatim>\<open>shader.to(device)\<close>, with the device it was given: when the two calls return,
  the world after \<^verbatim>\<open>to\<close> is the world the shader's call leaves when it starts from
  the world the rasterizer's call left. The two attributes are named in the method;
  nothing else of the object is visited.
\<close>

theorem to_forwards_device_to_both:
  fixes r :: "('g, 'tm, 'k, 'd, 'z, 'x, 'w) Rasterizer"
    and s :: "('g, 'tm, 'k, 'd, 'z, 'i, 'x, 'w) Shader"
  assumes "rasterizer_to r device w = (Inr u1, w1)"
    and "shader_to s device w1 = (Inr u2, w2)"
  shows "MeshRenderer_to (MeshRenderer_init r s) device w = (Inr (), MeshRenderer_init r s, w2)
       \<and> MeshRendererWithFragments_to (MeshRendererWithFragments_init r s) device w
           = (Inr (), MeshRendererWithFragments_init r s, w2)"
  using assms
  by (simp add: MeshRenderer_to_def MeshRenderer_init_def MeshRendererWithFragments_to_def
        MeshRendererWithFragments_init_def)

theorem to_forwards_device_to_both_witness:
  "rasterizer_to (recording_rasterizer centroid_fragments None) ''cuda:0'' []
     = (Inr (), [RasterizerTo ''cuda:0''])
   \<and> shader_to recording_shader ''cuda:0'' [RasterizerTo ''cuda:0'']
     = (Inr (), [RasterizerTo ''cuda:0'', ShaderTo ''cuda:0''])
   \<and> MeshRenderer_to
        (MeshRenderer_init (recording_rasterizer centroid_fragments None) recording_shader)
        ''cuda:0'' []
     = (Inr (),
        MeshRenderer_init (recording_rasterizer centroid_fragments None) recording_shader,
        [RasterizerTo ''cuda:0'', ShaderTo ''cuda:0''])
   \<and> MeshRendererWithFragments_to
        (MeshRendererWithFragments_init (recording_rasterizer centroid_fragments None)
           recording_shader)
        ''cuda:0'' []
     = (Inr (),
        MeshRendererWithFragments_init (recording_rasterizer centroid_fragments None)
          recording_shader,
        [RasterizerTo ''cuda:0'', ShaderTo ''cuda:0''])"
proof -
  have a: "rasterizer_to (recording_rasterizer centroid_fragments None) ''cuda:0'' []
             = (Inr (), [RasterizerTo ''cuda:0''])"
    by (simp add: recording_rasterizer_def)
  have b: "shader_to recording_shader ''cuda:0'' [RasterizerTo ''cuda:0'']
             = (Inr (), [RasterizerTo ''cuda:0'', ShaderTo ''cuda:0''])"
    by (simp add: recording_shader_def)
  from to_forwards_device_to_both[OF a b] a b show ?thesis by simp
qed

section \<open>The renderer keeps no state of its own\<close>

text \<open>
  C9. After \<^verbatim>\<open>forward\<close> of either class and after
  \<^verbatim>\<open>get_view_to_texture_map\<close> the object is what it was before the call: its two
  attributes are read and never assigned, for every input, whether the call returns or
  raises.
\<close>

theorem calls_leave_the_renderer_unchanged:
  "fst (snd (MeshRenderer_forward self m kw w)) = self
   \<and> fst (snd (get_view_to_texture_map self m kw w)) = self
   \<and> fst (snd (MeshRendererWithFragments_forward self' m kw w)) = self'"
  by (auto simp: MeshRenderer_forward_def get_view_to_texture_map_def Let_def
        MeshRendererWithFragments_forward_def split: prod.splits sum.splits)

section \<open>The texture maps and the texture-map entry point\<close>

text \<open>
  C10, as the code has it. \<^verbatim>\<open>tex_map\<close> is fetched and never used:
  \<^verbatim>\<open>get_view_to_texture_map\<close> itself reads the UV lists only. The rasterizer is
  called on the whole mesh batch, textures included, so the texture maps can reach the
  result through the rasterizer and through nothing else: for two batches that differ
  only in \<^verbatim>\<open>maps_padded()\<close> and on which the rasterizer does the same (returns the
  same fragments or raises the same exception, and leaves the same world), the calls
  have the same outcome.
\<close>

theorem texture_maps_unused_after_rasterization:
  fixes self :: "('g, 'tm, 'k, 'd, 'z, 'i, 'x, 'w) MeshRenderer"
  assumes "rasterizer_call (MeshRenderer.rasterizer self)
             (m\<lparr>textures := (textures m)\<lparr>maps_padded := a\<rparr>\<rparr>) kw w
           = rasterizer_call (MeshRenderer.rasterizer self)
             (m\<lparr>textures := (textures m)\<lparr>maps_padded := b\<rparr>\<rparr>) kw w"
  shows "get_view_to_texture_map self (m\<lparr>textures := (textures m)\<lparr>maps_padded := a\<rparr>\<rparr>) kw w
       = get_view_to_texture_map self (m\<lparr>textures := (textures m)\<lparr>maps_padded := b\<rparr>\<rparr>) kw w"
proof -
  have "(faces_verts_uvs ((textures m)\<lparr>maps_padded := a\<rparr>) :: 'x error + (uv \<times> uv \<times> uv) list)
          = faces_verts_uvs ((textures m)\<lparr>maps_padded := b\<rparr>)"
    by (simp add: faces_verts_uvs_def packing_list_def)
  with assms show ?thesis
    by (simp add: get_view_to_texture_map_def Let_def split: prod.splits sum.splits)
qed

theorem texture_maps_unused_after_rasterization_witness:
  "rasterizer_call
      (MeshRenderer.rasterizer
         (MeshRenderer_init (recording_rasterizer centroid_fragments None) recording_shader))
      (one_triangle\<lparr>textures := (textures one_triangle)\<lparr>maps_padded := 0\<rparr>\<rparr>) () []
     = rasterizer_call
      (MeshRenderer.rasterizer
         (MeshRenderer_init (recording_rasterizer centroid_fragments None) recording_shader))
      (one_triangle\<lparr>textures := (textures one_triangle)\<lparr>maps_padded := 1\<rparr>\<rparr>) () []
   \<and> get_view_to_texture_map
        (MeshRenderer_init (recording_rasterizer centroid_fragments None) recording_shader)
        (one_triangle\<lparr>textures := (textures one_triangle)\<lparr>maps_padded := 0\<rparr>\<rparr>) () []
     = get_view_to_texture_map
        (MeshRenderer_init (recording_rasterizer centroid_fragments None) recording_shader)
        (one_triangle\<lparr>textures := (textures one_triangle)\<lparr>maps_padded := 1\<rparr>\<rparr>) () []
   \<and> fst (get_view_to_texture_map
        (MeshRenderer_init (recording_rasterizer centroid_fragments None) recording_shader)
        (one_triangle\<lparr>textures := (textures one_triangle)\<lparr>maps_padded := 1\<rparr>\<rparr>) () [])
     = Inr [[[[(1/3, 1/3)]]]]"
proof -
  let ?self = "MeshRenderer_init (recording_rasterizer centroid_fragments None) recording_shader"
  have r: "rasterizer_call (MeshRenderer.rasterizer ?self)
      (one_triangle\<lparr>textures := (textures one_triangle)\<lparr>maps_padded := 0\<rparr>\<rparr>) () []
     = rasterizer_call (MeshRenderer.rasterizer ?self)
      (one_triangle\<lparr>textures := (textures one_triangle)\<lparr>maps_padded := 1\<rparr>\<rparr>) () []"
    by (simp add: recording_rasterizer_call)
  have v: "fst (get_view_to_texture_map ?self
        (one_triangle\<lparr>textures := (textures one_triangle)\<lparr>maps_padded := 1\<rparr>\<rparr>) () [])
     = Inr [[[[(1/3, 1/3)]]]]"
    by (simp add: get_view_to_texture_map_def Let_def MeshRenderer_init_def
        recording_rasterizer_def one_triangle_def centroid_fragments_def
        faces_verts_uvs_def packing_list_def index_tensor_def index_face_def
        tensor_index_def torch_cat_def interpolate_face_attributes_def interpolate_slot_def
        weighted_combination_def uv_add_def uv_scale_def)
  from texture_maps_unused_after_rasterization[OF r] r v show ?thesis by simp
qed

text \<open>
  A rasterizer that reads the texture maps: two batches that differ only in the maps
  get different UV maps.
\<close>

theorem texture_maps_reach_the_rasterizer_counterexample:
  "fst (get_view_to_texture_map (MeshRenderer_init map_reading_rasterizer recording_shader)
          (one_triangle\<lparr>textures := (textures one_triangle)\<lparr>maps_padded := 0\<rparr>\<rparr>) () [])
     = Inr [[[[(0, 0)]]]]
   \<and> fst (get_view_to_texture_map (MeshRenderer_init map_reading_rasterizer recording_shader)
          (one_triangle\<lparr>textures := (textures one_triangle)\<lparr>maps_padded := 1\<rparr>\<rparr>) () [])
     = Inr [[[[(1/3, 1/3)]]]]
   \<and> fst (get_view_to_texture_map (MeshRenderer_init map_reading_rasterizer recording_shader)
          (one_triangle\<lparr>textures := (textures one_triangle)\<lparr>maps_padded := 0\<rparr>\<rparr>) () [])
     \<noteq> fst (get_view_to_texture_map (MeshRenderer_init map_reading_rasterizer recording_shader)
          (one_triangle\<lparr>textures := (textures one_triangle)\<lparr>maps_padded := 1\<rparr>\<rparr>) () [])"
  by (simp add: get_view_to_texture_map_def Let_def MeshRenderer_init_def
        map_reading_rasterizer_def one_triangle_def centroid_fragments_def
        faces_verts_uvs_def packing_list_def index_tensor_def index_face_def
        tensor_index_def torch_cat_def interpolate_face_attributes_def interpolate_slot_def
        weighted_combination_def uv_add_def uv_scale_def)

end
